theory Spec2Isabelle
  imports Complex_Main "HOL-Library.Word"
begin

unbundle bit_operations_syntax

section \<open>The map view of \<^verbatim>\<open>src/src/map-view-new.tsx\<close>\<close>

text \<open>
  The development embeds the helper functions of the \<^verbatim>\<open>MapView\<close> component: the
  measurement engine, the categorical colour assigner, the legend and its visibility
  controller, and the geometry parser. JavaScript numbers are modelled as the real
  numbers they denote: IEEE rounding and the infinities are not modelled, and \<^verbatim>\<open>NaN\<close>,
  where the code tests for it, is the value \<open>None\<close> of an option. Strings are lists of
  8-bit characters.
\<close>

section \<open>Measurement engine\<close>

subsection \<open>Points and bounds\<close>

record LatLng =
  lat :: real
  lng :: real

text \<open>
  Modelled from the spec: the bounds of a polygon are computed by the mapping surface
  (\<^verbatim>\<open>window.L.polygon(points).getBounds()\<close>), which is not part of the repository. The
  spec's glossary defines the bounding extent as the minimal axis-aligned lat/lng
  rectangle containing the points: north and south are the largest and smallest
  latitude, east and west the largest and smallest longitude.
\<close>

definition getNorth :: "LatLng list \<Rightarrow> real" where
  "getNorth points = foldl max (lat (hd points)) (map lat (tl points))"

definition getSouth :: "LatLng list \<Rightarrow> real" where
  "getSouth points = foldl min (lat (hd points)) (map lat (tl points))"

definition getEast :: "LatLng list \<Rightarrow> real" where
  "getEast points = foldl max (lng (hd points)) (map lng (tl points))"

definition getWest :: "LatLng list \<Rightarrow> real" where
  "getWest points = foldl min (lng (hd points)) (map lng (tl points))"

subsection \<open>Distance and area\<close>

text \<open>
  \<^verbatim>\<open>calculateLineDistance\<close> (lines 1090-1096). The point-to-point distance
  \<^verbatim>\<open>points[i].distanceTo(points[i + 1])\<close> belongs to the mapping surface and is the
  parameter \<open>distanceTo\<close>. The loop bound \<^verbatim>\<open>points.length - 1\<close> is \<open>-1\<close> for the empty
  list, so the comparison is made on integers.
\<close>

function lineDistanceLoop ::
  "(LatLng \<Rightarrow> LatLng \<Rightarrow> real) \<Rightarrow> LatLng list \<Rightarrow> nat \<Rightarrow> real \<Rightarrow> real" where
  "lineDistanceLoop distanceTo points i total' =
     (if int i < int (length points) - 1
      then lineDistanceLoop distanceTo points (Suc i)
             (total' + distanceTo (points ! i) (points ! (i + 1)))
      else total')"
  by pat_completeness auto
termination
  by (relation "measure (\<lambda>(d, points, i, t). length points - i)") auto

declare lineDistanceLoop.simps [simp del]

definition calculateLineDistance :: "(LatLng \<Rightarrow> LatLng \<Rightarrow> real) \<Rightarrow> LatLng list \<Rightarrow> real" where
  "calculateLineDistance distanceTo points = lineDistanceLoop distanceTo points 0 0"

text \<open>
  \<^verbatim>\<open>calculatePolygonArea\<close> (lines 1098-1106). The expression of line 1104 is
  \<^verbatim>\<open>bounds.getNorth() - bounds.getSouth() * bounds.getEast() - bounds.getWest() * 111320 * 111320\<close>;
  it has no parentheses, so the products bind before the differences.
\<close>

definition calculatePolygonArea :: "LatLng list \<Rightarrow> real" where
  "calculatePolygonArea points =
     (if length points < 3 then 0
      else let approxArea = getNorth points - getSouth points * getEast points
                              - getWest points * 111320 * 111320
           in \<bar>approxArea\<bar>)"

subsection \<open>Formatting\<close>

datatype units = Metric | Imperial

definition digitChar :: "nat \<Rightarrow> char" where
  "digitChar d = ''0123456789'' ! d"

function natToString :: "nat \<Rightarrow> string" where
  "natToString n =
     (if n < 10 then [digitChar n] else natToString (n div 10) @ [digitChar (n mod 10)])"
  by pat_completeness auto
termination
  by (relation "measure id") auto

declare natToString.simps [simp del]

text \<open>
  \<^verbatim>\<open>Number.prototype.toFixed\<close> of the language: the sign, then the integer \<open>n\<close> nearest
  to \<open>x * 10^f\<close> (the larger one on a tie) printed with \<open>f\<close> digits after the point.
  From \<open>10^21\<close> on, the language prints the number with its general number-to-string
  conversion, which is the parameter \<open>numberToString\<close>.
\<close>

definition toFixed :: "(real \<Rightarrow> string) \<Rightarrow> nat \<Rightarrow> real \<Rightarrow> string" where
  "toFixed numberToString f x0 =
     (let s = (if x0 < 0 then ''-'' else '''');
          x = (if x0 < 0 then - x0 else x0)
      in if x \<ge> 10 ^ 21 then s @ numberToString x
         else
           let n = nat \<lfloor>x * 10 ^ f + 1 / 2\<rfloor>;
               m = (if n = 0 then ''0'' else natToString n);
               m = (if f \<noteq> 0
                    then let k = length m;
                             m = (if k \<le> f then replicate (f + 1 - k) (CHR ''0'') @ m else m);
                             k = (if k \<le> f then f + 1 else k)
                         in take (k - f) m @ ''.'' @ drop (k - f) m
                    else m)
           in s @ m)"

text \<open>\<^verbatim>\<open>formatDistance\<close> (lines 1108-1125); \<open>measurementUnits\<close> is the component's state.\<close>

definition formatDistance :: "(real \<Rightarrow> string) \<Rightarrow> units \<Rightarrow> real \<Rightarrow> string" where
  "formatDistance numberToString measurementUnits meters =
     (if measurementUnits = Imperial
      then let feet = meters * 3.28084
           in if feet < 5280 then toFixed numberToString 2 feet @ '' ft''
              else let miles = feet / 5280 in toFixed numberToString 2 miles @ '' miles''
      else if meters < 1000 then toFixed numberToString 2 meters @ '' m''
           else let km = meters / 1000 in toFixed numberToString 2 km @ '' km'')"

text \<open>\<^verbatim>\<open>formatArea\<close> (lines 1127-1144).\<close>

definition formatArea :: "(real \<Rightarrow> string) \<Rightarrow> units \<Rightarrow> real \<Rightarrow> string" where
  "formatArea numberToString measurementUnits sqMeters =
     (if measurementUnits = Imperial
      then let sqFeet = sqMeters * 10.764
           in if sqFeet < 43560 then toFixed numberToString 2 sqFeet @ '' sq ft''
              else let acres = sqFeet / 43560 in toFixed numberToString 2 acres @ '' acres''
      else if sqMeters < 10000 then toFixed numberToString 2 sqMeters @ '' sq m''
           else let hectares = sqMeters / 10000
                in toFixed numberToString 2 hectares @ '' hectares'')"

section \<open>Values, records and strings of the host language\<close>

text \<open>
  A record is a mapping from field names to values; a field the record does not have
  reads as \<^verbatim>\<open>undefined\<close>. The spec's data model allows strings, numbers and null.
\<close>

datatype jsvalue = JUndefined | JNull | JStr string | JNum real

type_synonym jsrecord = "string \<Rightarrow> jsvalue option"

definition getField :: "jsrecord \<Rightarrow> string \<Rightarrow> jsvalue" where
  "getField r k = (case r k of None \<Rightarrow> JUndefined | Some v \<Rightarrow> v)"

text \<open>Truthiness: \<^verbatim>\<open>undefined\<close>, \<^verbatim>\<open>null\<close>, the empty string and \<open>0\<close> are falsy.\<close>

fun truthy :: "jsvalue \<Rightarrow> bool" where
  "truthy JUndefined = False"
| "truthy JNull = False"
| "truthy (JStr s) = (s \<noteq> [])"
| "truthy (JNum x) = (x \<noteq> 0)"

text \<open>\<^verbatim>\<open>a || b\<close>\<close>

definition jsOr :: "jsvalue \<Rightarrow> jsvalue \<Rightarrow> jsvalue" where
  "jsOr a b = (if truthy a then a else b)"

text \<open>
  \<^verbatim>\<open>String(v)\<close>; how the language prints a number is the parameter \<open>numberToString\<close>.
\<close>

fun toJsString :: "(real \<Rightarrow> string) \<Rightarrow> jsvalue \<Rightarrow> string" where
  "toJsString numberToString JUndefined = ''undefined''"
| "toJsString numberToString JNull = ''null''"
| "toJsString numberToString (JStr s) = s"
| "toJsString numberToString (JNum x) = numberToString x"

text \<open>
  White space of the language (\<^verbatim>\<open>\s\<close> in a regular expression, and what \<^verbatim>\<open>trim\<close>
  removes), among 8-bit characters: tab, line feed, vertical tab, form feed, carriage
  return, space and the no-break space.
\<close>

definition isSpace :: "char \<Rightarrow> bool" where
  "isSpace c = (of_char c \<in> {9, 10, 11, 12, 13, 32, 160 :: nat})"

definition trim :: "string \<Rightarrow> string" where
  "trim s = rev (dropWhile isSpace (rev (dropWhile isSpace s)))"

text \<open>
  \<^verbatim>\<open>toUpperCase\<close>, on the letters \<^verbatim>\<open>a\<close> to \<^verbatim>\<open>z\<close>. The code only searches the result for
  the tags \<^verbatim>\<open>POLYGON\<close> and \<^verbatim>\<open>MULTIPOLYGON\<close>, whose letters no other 8-bit character is
  mapped to.
\<close>

definition toUpperChar :: "char \<Rightarrow> char" where
  "toUpperChar c =
     (case map_of (zip ''abcdefghijklmnopqrstuvwxyz'' ''ABCDEFGHIJKLMNOPQRSTUVWXYZ'') c of
        Some u \<Rightarrow> u
      | None \<Rightarrow> c)"

definition toUpperCase :: "string \<Rightarrow> string" where
  "toUpperCase s = map toUpperChar s"

definition startsWith :: "string \<Rightarrow> string \<Rightarrow> bool" where
  "startsWith s pat = (take (length pat) s = pat)"

fun includes' :: "string \<Rightarrow> string \<Rightarrow> bool" where
  "includes' [] pat = (pat = [])"
| "includes' (c # cs) pat = (startsWith (c # cs) pat \<or> includes' cs pat)"

text \<open>\<^verbatim>\<open>s.split(',')\<close>, for a separator of one character.\<close>

fun splitOn :: "char \<Rightarrow> string \<Rightarrow> string list" where
  "splitOn sep [] = [[]]"
| "splitOn sep (c # cs) =
     (if c = sep then [] # splitOn sep cs
      else let r = splitOn sep cs in (c # hd r) # tl r)"

text \<open>
  \<^verbatim>\<open>s.split(/\s+/)\<close>: the pieces between the maximal runs of white space, an empty
  piece before a leading run and after a trailing one.
\<close>

function splitSpaces :: "string \<Rightarrow> string list" where
  "splitSpaces [] = [[]]"
| "splitSpaces (c # cs) =
     (if isSpace c then [] # splitSpaces (dropWhile isSpace cs)
      else let r = splitSpaces cs in (c # hd r) # tl r)"
  by pat_completeness auto
termination
  by (relation "measure length") (auto simp: less_Suc_eq_le length_dropWhile_le)

subsection \<open>Regular expressions of the parser\<close>

text \<open>
  The three patterns of the code have one shape: a tag matched without regard to case,
  \<open>k\<close> opening parentheses each after optional white space, optional white space, a
  group \<^verbatim>\<open>([^)]+)\<close>, and \<open>k\<close> closing parentheses each after optional white space:
  \<^verbatim>\<open>/POLYGON\s*\(\s*\(\s*([^)]+)\s*\)\s*\)/i\<close> has \<open>k = 2\<close>, the pattern of
  \<^verbatim>\<open>MULTIPOLYGON\<close> has \<open>k = 3\<close> and that of \<^verbatim>\<open>POINT\<close> has \<open>k = 1\<close>.
  \<open>matchTagAt\<close> is the match anchored at the head of the string and returns the group.
  The group is greedy: it runs to the first closing parenthesis. When nothing but
  white space stands before that parenthesis, backtracking leaves the last white-space
  character to the group.
\<close>

fun matchOpens :: "nat \<Rightarrow> string \<Rightarrow> string option" where
  "matchOpens 0 s = Some s"
| "matchOpens (Suc k) s =
     (case dropWhile isSpace s of
        [] \<Rightarrow> None
      | c # r \<Rightarrow> if c = CHR ''('' then matchOpens k r else None)"

fun matchCloses :: "nat \<Rightarrow> string \<Rightarrow> bool" where
  "matchCloses 0 s = True"
| "matchCloses (Suc k) s =
     (case dropWhile isSpace s of
        [] \<Rightarrow> False
      | c # r \<Rightarrow> if c = CHR '')'' then matchCloses k r else False)"

definition matchTagAt :: "string \<Rightarrow> nat \<Rightarrow> string \<Rightarrow> string option" where
  "matchTagAt tag k s =
     (if toUpperCase (take (length tag) s) = tag
      then case matchOpens k (drop (length tag) s) of
             None \<Rightarrow> None
           | Some r \<Rightarrow>
               let w = takeWhile isSpace r;
                   r' = dropWhile isSpace r;
                   body = takeWhile (\<lambda>c. c \<noteq> CHR '')'') r';
                   after = dropWhile (\<lambda>c. c \<noteq> CHR '')'') r'
               in if body = [] \<and> w = [] then None
                  else if matchCloses k after
                       then Some (if body = [] then [last w] else body)
                       else None
      else None)"

text \<open>\<^verbatim>\<open>s.match(pattern)\<close>: the match at the leftmost position that has one.\<close>

fun searchTag :: "string \<Rightarrow> nat \<Rightarrow> string \<Rightarrow> string option" where
  "searchTag tag k [] = matchTagAt tag k []"
| "searchTag tag k (c # cs) =
     (case matchTagAt tag k (c # cs) of
        Some g \<Rightarrow> Some g
      | None \<Rightarrow> searchTag tag k cs)"

section \<open>Categorical colour assigner\<close>

text \<open>
  \<^verbatim>\<open>getColorForValue\<close> (lines 917-930). The hash is a number of the language, an integer
  here. \<^verbatim>\<open>hash << 5\<close> converts its operand to a signed 32-bit integer, shifts it and
  reads the result as a signed 32-bit integer again; the subtraction and the addition
  around it are on numbers, with no conversion. Characters are read by their code.
  Each step moves the hash by less than \<open>2^32\<close>, so the integer is the number the
  language computes for every string of fewer than \<open>2^21\<close> characters; beyond, the
  language rounds it, to an integer still.
\<close>

definition shiftLeft5 :: "int \<Rightarrow> int" where
  "shiftLeft5 hash = sint (push_bit 5 (word_of_int hash :: 32 word))"

definition hashStep :: "int \<Rightarrow> char \<Rightarrow> int" where
  "hashStep hash c = of_char c + (shiftLeft5 hash - hash)"

definition colors :: "string list" where
  "colors =
     [''#FF6B6B'', ''#4ECDC4'', ''#45B7D1'', ''#96CEB4'', ''#FECA57'',
      ''#FF9FF3'', ''#54A0FF'', ''#5F27CD'', ''#00D2D3'', ''#FF9F43'',
      ''#10AC84'', ''#EE5A24'', ''#0abde3'', ''#006ba6'', ''#f39801'']"

definition getColorForValue :: "string \<Rightarrow> string \<Rightarrow> string" where
  "getColorForValue value' field =
     (let hash = foldl hashStep 0 value'
      in colors ! nat (\<bar>hash\<bar> mod int (length colors)))"

text \<open>
  The categorical value of a record, \<^verbatim>\<open>String(record[colorField] || 'No value')\<close>, as
  written in \<^verbatim>\<open>generateLegendData\<close>, \<^verbatim>\<open>updateLayerVisibility\<close> and \<^verbatim>\<open>getFeatureColor\<close>.
\<close>

definition categoryValue :: "(real \<Rightarrow> string) \<Rightarrow> string \<Rightarrow> jsrecord \<Rightarrow> string" where
  "categoryValue numberToString colorField record' =
     toJsString numberToString (jsOr (getField record' colorField) (JStr ''No value''))"

text \<open>\<^verbatim>\<open>getFeatureColor\<close> (lines 726-736), with its own palette of eight default colours.\<close>

definition defaultColors :: "string list" where
  "defaultColors =
     [''#3388ff'', ''#ff6b6b'', ''#4ecdc4'', ''#45b7d1'', ''#f39c12'', ''#e74c3c'',
      ''#9b59b6'', ''#2ecc71'']"

definition getFeatureColor :: "(real \<Rightarrow> string) \<Rightarrow> string \<Rightarrow> jsrecord \<Rightarrow> nat \<Rightarrow> string" where
  "getFeatureColor numberToString colorField record' index =
     (if colorField \<noteq> [] \<and> colorField \<noteq> ''default'' \<and> truthy (getField record' colorField)
      then getColorForValue (categoryValue numberToString colorField record') colorField
      else defaultColors ! (index mod length defaultColors))"

section \<open>Geometry parser\<close>

datatype js_error = TypeError | InvalidLatLng | LibraryError

text \<open>
  GeoJSON geometries: a point (latitude, longitude) and the \<^verbatim>\<open>coordinates\<close> of a polygon
  (a list of rings) and of a multipolygon (a list of polygons). A coordinate pair is
  \<^verbatim>\<open>[lng, lat]\<close>.
\<close>

datatype geometry =
    Point real real
  | Polygon "(real \<times> real) list list"
  | MultiPolygon "(real \<times> real) list list list"

text \<open>
  One element of \<^verbatim>\<open>coordString.split(',')\<close> (lines 531-542). \<^verbatim>\<open>parseFloat\<close> is the
  language's and is a parameter; \<open>None\<close> is \<^verbatim>\<open>NaN\<close>. With one field only, \<^verbatim>\<open>coords[1]\<close>
  is \<^verbatim>\<open>undefined\<close>, which \<^verbatim>\<open>parseFloat\<close> reads as \<^verbatim>\<open>NaN\<close>.
\<close>

definition parsePair :: "(string \<Rightarrow> real option) \<Rightarrow> string \<Rightarrow> (real \<times> real) option" where
  "parsePair parseFloat pair =
     (let coords = splitSpaces (trim pair);
          lng = parseFloat (hd coords);
          lat = (if 1 < length coords then parseFloat (coords ! 1) else None)
      in case (lng, lat) of
           (Some x, Some y) \<Rightarrow> Some (x, y)
         | _ \<Rightarrow> None)"

definition parseCoordPairs :: "(string \<Rightarrow> real option) \<Rightarrow> string \<Rightarrow> (real \<times> real) list" where
  "parseCoordPairs parseFloat coordString =
     map the (filter (\<lambda>pair. pair \<noteq> None)
       (map (parsePair parseFloat) (splitOn (CHR '','') coordString)))"

text \<open>Lines 498-521: the coordinate string, empty when the pattern does not match.\<close>

definition extractCoordString :: "string \<Rightarrow> string" where
  "extractCoordString wkt =
     (if includes' (toUpperCase wkt) ''MULTIPOLYGON''
      then (case searchTag ''MULTIPOLYGON'' 3 wkt of Some g \<Rightarrow> g | None \<Rightarrow> [])
      else if includes' (toUpperCase wkt) ''POLYGON''
      then (case searchTag ''POLYGON'' 2 wkt of Some g \<Rightarrow> g | None \<Rightarrow> [])
      else [])"

text \<open>Lines 549-554: close the ring if it is not closed already.\<close>

definition closeRing :: "(real \<times> real) list \<Rightarrow> (real \<times> real) list" where
  "closeRing coordPairs =
     (let firstPoint = coordPairs ! 0;
          lastPoint = coordPairs ! (length coordPairs - 1)
      in if fst firstPoint \<noteq> fst lastPoint \<or> snd firstPoint \<noteq> snd lastPoint
         then coordPairs @ [(fst firstPoint, snd firstPoint)]
         else coordPairs)"

text \<open>
  The \<^verbatim>\<open>try\<close> block of \<^verbatim>\<open>parseMultiPolygonManually\<close> (lines 485-569). The argument is
  declared a string, but the types are erased when the program runs: reading
  \<^verbatim>\<open>wkt.length\<close> of \<^verbatim>\<open>null\<close> or \<^verbatim>\<open>undefined\<close>, and calling \<^verbatim>\<open>wkt.toUpperCase()\<close> on a
  number, raise a \<^verbatim>\<open>TypeError\<close>.
\<close>

definition parseMultiPolygonManually_try ::
  "(string \<Rightarrow> real option) \<Rightarrow> jsvalue \<Rightarrow> js_error + geometry option" where
  "parseMultiPolygonManually_try parseFloat v =
     (case v of
        JStr wkt \<Rightarrow>
          if includes' (toUpperCase wkt) ''MULTIPOLYGON'' \<and> \<not> includes' wkt '')))''
          then Inr None
          else
            let isMultiPolygon = includes' (toUpperCase wkt) ''MULTIPOLYGON'';
                coordString = extractCoordString wkt
            in if coordString = [] then Inr None
               else
                 let coordPairs = parseCoordPairs parseFloat coordString
                 in if length coordPairs < 3 then Inr None
                    else if isMultiPolygon
                         then Inr (Some (MultiPolygon [[closeRing coordPairs]]))
                         else Inr (Some (Polygon [closeRing coordPairs]))
      | _ \<Rightarrow> Inl TypeError)"

text \<open>\<^verbatim>\<open>parseMultiPolygonManually\<close> (lines 484-574): the block and its \<^verbatim>\<open>catch\<close>.\<close>

definition parseMultiPolygonManually ::
  "(string \<Rightarrow> real option) \<Rightarrow> jsvalue \<Rightarrow> js_error + geometry option" where
  "parseMultiPolygonManually parseFloat v =
     (case parseMultiPolygonManually_try parseFloat v of
        Inl e \<Rightarrow> Inr None
      | Inr g \<Rightarrow> Inr g)"

subsection \<open>Point-like values\<close>

text \<open>
  \<^verbatim>\<open>parseCoordinates\<close> (lines 695-724). \<^verbatim>\<open>Number\<close> and \<^verbatim>\<open>parseFloat\<close> are the language's and
  are parameters. The first branch tests for \<^verbatim>\<open>POINT\<close> with regard to case and returns
  the two numbers whatever they are, \<^verbatim>\<open>NaN\<close> included; the result is \<^verbatim>\<open>[lat, lng]\<close>.
\<close>

definition parseCoordinates ::
  "(string \<Rightarrow> real option) \<Rightarrow> (string \<Rightarrow> real option) \<Rightarrow> (real \<Rightarrow> string) \<Rightarrow> jsvalue
     \<Rightarrow> (real option \<times> real option) option" where
  "parseCoordinates parseFloat toNumber numberToString coordString =
     (if \<not> truthy coordString then None
      else
        let str = trim (toJsString numberToString coordString)
        in if includes' str ''POINT''
           then (case searchTag ''POINT'' 1 str of
                   Some g \<Rightarrow>
                     let coords = map toNumber (splitSpaces g)
                     in if 2 \<le> length coords then Some (coords ! 1, coords ! 0) else None
                 | None \<Rightarrow> None)
           else if includes' str '',''
           then let parts = map (\<lambda>s. parseFloat (trim s)) (splitOn (CHR '','') str)
                in if 2 \<le> length parts \<and> parts ! 0 \<noteq> None \<and> parts ! 1 \<noteq> None
                   then if \<bar>the (parts ! 0)\<bar> \<le> 90
                        then Some (parts ! 0, parts ! 1)
                        else Some (parts ! 1, parts ! 0)
                   else None
           else None)"

subsection \<open>The geometry of a record's value\<close>

text \<open>
  The body of the loop over a record's geometry columns (lines 274-414), as far as it
  decides which geometry, if any, is drawn for the value \<open>geomData\<close>. The optional
  library \<^verbatim>\<open>window.wellknown\<close> is the parameter \<open>wellknown\<close>: \<open>None\<close> when it was not
  loaded, and a function that may raise otherwise; its exception is caught at line 301.
  The mapping surface refuses a marker at a \<^verbatim>\<open>NaN\<close> coordinate by raising; this, like any
  exception of the body, is caught at line 412.
\<close>

definition manualOrWellknown ::
  "(string \<Rightarrow> real option) \<Rightarrow> (string \<Rightarrow> js_error + geometry option) option \<Rightarrow> string
     \<Rightarrow> js_error + geometry option" where
  "manualOrWellknown parseFloat wellknown geomData =
     (case parseMultiPolygonManually parseFloat (JStr geomData) of
        Inl e \<Rightarrow> Inl e
      | Inr geometry' \<Rightarrow>
          if geometry' = None \<and> wellknown \<noteq> None
          then (case the wellknown geomData of
                  Inl e \<Rightarrow> Inr None
                | Inr g \<Rightarrow> Inr g)
          else Inr geometry')"

definition parseGeometry_try ::
  "(string \<Rightarrow> real option) \<Rightarrow> (string \<Rightarrow> real option) \<Rightarrow> (real \<Rightarrow> string)
     \<Rightarrow> (string \<Rightarrow> js_error + geometry option) option \<Rightarrow> jsvalue
     \<Rightarrow> js_error + geometry option" where
  "parseGeometry_try parseFloat toNumber numberToString wellknown geomData =
     (case geomData of
        JStr s \<Rightarrow>
          let cleanGeomData = toUpperCase (trim s)
          in if startsWith cleanGeomData ''POLYGON'' \<or> startsWith cleanGeomData ''MULTIPOLYGON''
             then (case manualOrWellknown parseFloat wellknown s of
                     Inl e \<Rightarrow> Inr None
                   | Inr geometry' \<Rightarrow> Inr geometry')
             else (case parseCoordinates parseFloat toNumber numberToString geomData of
                     None \<Rightarrow> Inr None
                   | Some (lat', lng') \<Rightarrow>
                       (case (lat', lng') of
                          (Some y, Some x) \<Rightarrow> Inr (Some (Point y x))
                        | _ \<Rightarrow> Inl InvalidLatLng))
      | _ \<Rightarrow> Inr None)"

definition parseGeometry ::
  "(string \<Rightarrow> real option) \<Rightarrow> (string \<Rightarrow> real option) \<Rightarrow> (real \<Rightarrow> string)
     \<Rightarrow> (string \<Rightarrow> js_error + geometry option) option \<Rightarrow> jsvalue
     \<Rightarrow> js_error + geometry option" where
  "parseGeometry parseFloat toNumber numberToString wellknown geomData =
     (if truthy geomData
      then (case parseGeometry_try parseFloat toNumber numberToString wellknown geomData of
              Inl e \<Rightarrow> Inr None
            | Inr g \<Rightarrow> Inr g)
      else Inr None)"

subsection \<open>Readers of decimal literals\<close>

text \<open>
  To run the parser on a concrete string, \<open>parseFloatDec\<close> and \<open>numberDec\<close> read a decimal
  literal (sign, digits, fraction, exponent) as \<^verbatim>\<open>parseFloat\<close> and \<^verbatim>\<open>Number\<close> do, and
  return the number the literal denotes. \<^verbatim>\<open>parseFloat\<close> skips leading white space and
  stops where the literal ends; \<^verbatim>\<open>Number\<close> wants the whole trimmed string and reads the
  empty string as \<open>0\<close>. The literals \<^verbatim>\<open>Infinity\<close> and the hexadecimal, octal and binary
  ones of \<^verbatim>\<open>Number\<close> are not read.
\<close>

definition isDigit :: "char \<Rightarrow> bool" where
  "isDigit c = (c \<in> set ''0123456789'')"

definition digitValue :: "char \<Rightarrow> nat" where
  "digitValue c = of_char c - 48"

definition digitsValue :: "string \<Rightarrow> nat" where
  "digitsValue ds = foldl (\<lambda>a c. 10 * a + digitValue c) 0 ds"

definition readSign :: "string \<Rightarrow> int \<times> string" where
  "readSign s =
     (case s of
        [] \<Rightarrow> (1, [])
      | c # r \<Rightarrow> if c = CHR ''-'' then (- 1, r) else if c = CHR ''+'' then (1, r) else (1, s))"

definition readExponent :: "string \<Rightarrow> int \<times> string" where
  "readExponent s =
     (case s of
        [] \<Rightarrow> (0, [])
      | c # r \<Rightarrow>
          if c = CHR ''e'' \<or> c = CHR ''E''
          then let (sg, r') = readSign r;
                   ds = takeWhile isDigit r'
               in if ds = [] then (0, s) else (sg * int (digitsValue ds), dropWhile isDigit r')
          else (0, s))"

definition readDecimal :: "string \<Rightarrow> (real \<times> string) option" where
  "readDecimal s =
     (let (sg, u) = readSign s;
          ip = takeWhile isDigit u;
          r1 = dropWhile isDigit u;
          hasPoint = (r1 \<noteq> [] \<and> hd r1 = CHR ''.'');
          fp = (if hasPoint then takeWhile isDigit (tl r1) else []);
          r2 = (if hasPoint then dropWhile isDigit (tl r1) else r1);
          (e, r3) = readExponent r2
      in if ip = [] \<and> fp = [] then None
         else Some (real_of_int sg * real (digitsValue (ip @ fp)) / 10 ^ length fp
                      * (if 0 \<le> e then 10 ^ nat e else 1 / 10 ^ nat (- e)), r3))"

definition parseFloatDec :: "string \<Rightarrow> real option" where
  "parseFloatDec s = map_option fst (readDecimal (dropWhile isSpace s))"

definition numberDec :: "string \<Rightarrow> real option" where
  "numberDec s =
     (let t = trim s
      in if t = [] then Some 0
         else case readDecimal t of
                Some (x, r) \<Rightarrow> if r = [] then Some x else None
              | None \<Rightarrow> None)"

section \<open>Feature builder\<close>

datatype permission = View | Edit | Hidden

record column =
  key :: string
  label :: string
  isGeometry :: bool
  permission :: "permission option"




section \<open>Legend and visibility controller\<close>

record legend_item =
  value' :: string
  color :: string
  count :: nat
  visible :: bool

text \<open>
  \<^verbatim>\<open>generateLegendData\<close> (lines 933-960). The \<^verbatim>\<open>Map\<close> from values to colour and count
  keeps its keys in the order of their insertion and is an association list.
\<close>

definition legendStep ::
  "(real \<Rightarrow> string) \<Rightarrow> string \<Rightarrow> (string \<times> string \<times> nat) list \<Rightarrow> jsrecord
     \<Rightarrow> (string \<times> string \<times> nat) list" where
  "legendStep numberToString colorField valueColorMap record' =
     (let v = categoryValue numberToString colorField record';
          c = getColorForValue v colorField
      in if v \<in> set (map fst valueColorMap)
         then map (\<lambda>(k, kc, n). if k = v then (k, kc, n + 1) else (k, kc, n)) valueColorMap
         else valueColorMap @ [(v, c, 1)])"

definition generateLegendData ::
  "(real \<Rightarrow> string) \<Rightarrow> string \<Rightarrow> jsrecord list \<Rightarrow> string set \<Rightarrow> legend_item list" where
  "generateLegendData numberToString colorField data hiddenValues =
     (if colorField = [] \<or> colorField = ''default'' \<or> data = [] then []
      else map (\<lambda>(v, c, n). \<lparr>value' = v, color = c, count = n, visible = (v \<notin> hiddenValues)\<rparr>)
             (foldl (legendStep numberToString colorField) [] data))"

text \<open>
  A layer of the layer group, as the visibility controller sees it: the record attached
  to it, if any, what it draws, and its style. \<^verbatim>\<open>setStyle\<close> with \<^verbatim>\<open>opacity\<close> and
  \<^verbatim>\<open>fillOpacity\<close> sets these two options and keeps the others. The drawing effect puts
  three kinds of layers into the group:
  \<^item> for a point, the circle marker of lines 389-407, to which the record is attached
    (line 400);
  \<^item> for a geometry read from a tagged string, the layer that \<^verbatim>\<open>window.L.geoJSON\<close>
    returns (lines 319-352). The callback \<^verbatim>\<open>onEachFeature\<close> attaches the record to its own
    argument, the path inside that layer (lines 329 and 346), so the layer in the group
    has no record of its own: \<open>layerRecord\<close> is \<open>None\<close> and \<open>pathRecord\<close> holds the record;
  \<^item> a label, when a label field is selected (lines 365-377): a marker with a text, no
    record and no path style (its style fields are not read).
\<close>

record layer =
  layerRecord :: "jsrecord option"
  pathRecord :: "jsrecord option"
  shape :: "geometry option"
  labelText :: "string option"
  strokeColor :: string
  weight :: real
  opacity :: real
  fillOpacity :: real
  fillColor :: string

definition setStyle :: "real \<Rightarrow> real \<Rightarrow> layer \<Rightarrow> layer" where
  "setStyle o' fo l = l\<lparr>opacity := o', fillOpacity := fo\<rparr>"

text \<open>
  \<^verbatim>\<open>updateLayerVisibility\<close> (lines 977-992); \<open>layerGroup\<close> is \<open>None\<close> while
  \<^verbatim>\<open>layerGroupRef.current\<close> is not set.
\<close>

definition updateLayer :: "(real \<Rightarrow> string) \<Rightarrow> string \<Rightarrow> string set \<Rightarrow> layer \<Rightarrow> layer" where
  "updateLayer numberToString colorField hiddenVals l =
     (case layerRecord l of
        None \<Rightarrow> l
      | Some r \<Rightarrow>
          let v = categoryValue numberToString colorField r;
              isHidden = (v \<in> hiddenVals)
          in if isHidden then setStyle 0 0 l else setStyle 1 0.3 l)"

definition updateLayerVisibility ::
  "(real \<Rightarrow> string) \<Rightarrow> string \<Rightarrow> layer list option \<Rightarrow> string set \<Rightarrow> layer list option" where
  "updateLayerVisibility numberToString colorField layerGroup hiddenVals =
     (if layerGroup = None \<or> colorField = [] \<or> colorField = ''default'' then layerGroup
      else Some (map (updateLayer numberToString colorField hiddenVals) (the layerGroup)))"

text \<open>
  The record of the feature that a layer draws, and the categorical value of that
  feature.
\<close>

definition drawnRecord :: "layer \<Rightarrow> jsrecord option" where
  "drawnRecord l = (case layerRecord l of Some r \<Rightarrow> Some r | None \<Rightarrow> pathRecord l)"

definition layerCategory :: "(real \<Rightarrow> string) \<Rightarrow> string \<Rightarrow> layer \<Rightarrow> string option" where
  "layerCategory numberToString colorField l =
     map_option (categoryValue numberToString colorField) (drawnRecord l)"

subsection \<open>Drawing the layers\<close>

text \<open>
  The layers that the drawing effect creates. A path has the opacity 1 of the mapping
  surface unless the style says otherwise (the style of lines 320-325 does not).
\<close>

definition circleMarker :: "jsrecord \<Rightarrow> real \<Rightarrow> real \<Rightarrow> string \<Rightarrow> layer" where
  "circleMarker record' y x c =
     \<lparr>layerRecord = Some record', pathRecord = None, shape = Some (Point y x),
      labelText = None, strokeColor = ''#ffffff'', weight = 2, opacity = 1,
      fillOpacity = 0.8, fillColor = c\<rparr>"

definition geoJSONLayer :: "jsrecord \<Rightarrow> geometry \<Rightarrow> string \<Rightarrow> layer" where
  "geoJSONLayer record' g c =
     \<lparr>layerRecord = None, pathRecord = Some record', shape = Some g,
      labelText = None, strokeColor = c, weight = 2, opacity = 1,
      fillOpacity = 0.3, fillColor = c\<rparr>"

definition labelMarker :: "string \<Rightarrow> layer" where
  "labelMarker t =
     \<lparr>layerRecord = None, pathRecord = None, shape = None,
      labelText = Some t, strokeColor = [], weight = 0, opacity = 1,
      fillOpacity = 0, fillColor = []\<rparr>"

text \<open>The tag test of line 286.\<close>

definition isWktTagged :: "jsvalue \<Rightarrow> bool" where
  "isWktTagged geomData =
     (case geomData of
        JStr s \<Rightarrow>
          startsWith (toUpperCase (trim s)) ''POLYGON'' \<or>
          startsWith (toUpperCase (trim s)) ''MULTIPOLYGON''
      | _ \<Rightarrow> False)"

text \<open>
  The layers drawn for one geometry value of a record (lines 274-414): for a tagged
  string the GeoJSON layer and, when the record has a truthy value in the selected label
  field, its label; otherwise the circle marker of the point.
\<close>

definition drawGeometry ::
  "(string \<Rightarrow> real option) \<Rightarrow> (string \<Rightarrow> real option) \<Rightarrow> (real \<Rightarrow> string)
     \<Rightarrow> (string \<Rightarrow> js_error + geometry option) option
     \<Rightarrow> string \<Rightarrow> string \<Rightarrow> jsrecord \<Rightarrow> nat \<Rightarrow> jsvalue \<Rightarrow> layer list" where
  "drawGeometry parseFloat toNumber numberToString wellknown colorField labelField
       record' index geomData =
     (case parseGeometry parseFloat toNumber numberToString wellknown geomData of
        Inr (Some g) \<Rightarrow>
          if isWktTagged geomData
          then geoJSONLayer record' g (getFeatureColor numberToString colorField record' index) #
               (if labelField \<noteq> [] \<and> labelField \<noteq> ''none'' \<and>
                   truthy (getField record' labelField)
                then [labelMarker (toJsString numberToString (getField record' labelField))]
                else [])
          else (case g of
                  Point y x \<Rightarrow>
                    [circleMarker record' y x
                       (getFeatureColor numberToString colorField record' index)]
                | _ \<Rightarrow> [])
      | _ \<Rightarrow> [])"

text \<open>Lines 261-417: every record, and every geometry column whose value is truthy.\<close>

definition drawLayers ::
  "(string \<Rightarrow> real option) \<Rightarrow> (string \<Rightarrow> real option) \<Rightarrow> (real \<Rightarrow> string)
     \<Rightarrow> (string \<Rightarrow> js_error + geometry option) option
     \<Rightarrow> string \<Rightarrow> string \<Rightarrow> column list \<Rightarrow> jsrecord list \<Rightarrow> layer list" where
  "drawLayers parseFloat toNumber numberToString wellknown colorField labelField columns data =
     (let geometryColumns = filter isGeometry columns
      in concat (map (\<lambda>(record', index).
           concat (map (\<lambda>geometryCol.
               drawGeometry parseFloat toNumber numberToString wellknown colorField labelField
                 record' index (getField record' (key geometryCol)))
             (filter (\<lambda>col. truthy (getField record' (key col))) geometryColumns)))
           (zip data [0 ..< length data])))"

subsection \<open>The state and its effects\<close>

text \<open>The state of the component that the map and the legend read and write.\<close>

record map_state =
  data :: "jsrecord list"
  columns :: "column list"
  colorField :: string
  labelField :: string
  hiddenValues :: "string set"
  legendItems :: "legend_item list"
  isMapInitialized :: bool
  layerGroup :: "layer list option"

text \<open>
  The drawing effect (lines 249-455): it clears the layer group and draws every layer
  anew, reading every geometry again.
\<close>

definition drawEffect ::
  "(string \<Rightarrow> real option) \<Rightarrow> (string \<Rightarrow> real option) \<Rightarrow> (real \<Rightarrow> string)
     \<Rightarrow> (string \<Rightarrow> js_error + geometry option) option \<Rightarrow> map_state \<Rightarrow> map_state" where
  "drawEffect parseFloat toNumber numberToString wellknown st =
     (if \<not> isMapInitialized st \<or> layerGroup st = None then st
      else st\<lparr>layerGroup :=
             Some (drawLayers parseFloat toNumber numberToString wellknown
                     (colorField st) (labelField st) (columns st) (data st))\<rparr>)"

text \<open>The effect of lines 473-475, run when the colour field or the data change.\<close>

definition legendEffect :: "(real \<Rightarrow> string) \<Rightarrow> map_state \<Rightarrow> map_state" where
  "legendEffect numberToString st =
     st\<lparr>legendItems :=
          generateLegendData numberToString (colorField st) (data st) (hiddenValues st)\<rparr>"

text \<open>The effect of lines 478-480, run when the hidden values change.\<close>

definition hiddenValuesEffect :: "(real \<Rightarrow> string) \<Rightarrow> map_state \<Rightarrow> map_state" where
  "hiddenValuesEffect numberToString st =
     st\<lparr>layerGroup :=
          updateLayerVisibility numberToString (colorField st) (layerGroup st) (hiddenValues st)\<rparr>"

text \<open>\<^verbatim>\<open>toggleLegendItem\<close> (lines 963-974).\<close>

definition toggleLegendItem :: "(real \<Rightarrow> string) \<Rightarrow> string \<Rightarrow> map_state \<Rightarrow> map_state" where
  "toggleLegendItem numberToString v st =
     (let newHiddenValues =
            (if v \<in> hiddenValues st then hiddenValues st - {v} else insert v (hiddenValues st))
      in st\<lparr>hiddenValues := newHiddenValues,
             layerGroup :=
               updateLayerVisibility numberToString (colorField st) (layerGroup st)
                 newHiddenValues\<rparr>)"

text \<open>The handler of the button \<^verbatim>\<open>Show All\<close> (lines 1416-1419).\<close>

definition showAll :: "map_state \<Rightarrow> map_state" where
  "showAll st =
     st\<lparr>hiddenValues := {},
        legendItems := map (\<lambda>item. item\<lparr>visible := True\<rparr>) (legendItems st)\<rparr>"

text \<open>
  The two operations of the legend as the user performs them. The handler changes the
  state, so the component renders again, and after the rendering every effect runs
  whose dependencies changed, in the order of the source:
  \<^item> the drawing effect depends on \<^verbatim>\<open>visibleColumns\<close> and \<^verbatim>\<open>geometryColumns\<close> (line 455),
    arrays that every rendering builds anew (lines 54-56), so it runs after every
    rendering;
  \<^item> the legend effect depends on the colour field and the data, which the two handlers
    do not change, so it does not run;
  \<^item> the effect of the hidden values runs, since both handlers store a new set.
\<close>

datatype legend_op = Toggle string | ShowAll

fun legendOp ::
  "(string \<Rightarrow> real option) \<Rightarrow> (string \<Rightarrow> real option) \<Rightarrow> (real \<Rightarrow> string)
     \<Rightarrow> (string \<Rightarrow> js_error + geometry option) option
     \<Rightarrow> legend_op \<Rightarrow> map_state \<Rightarrow> map_state" where
  "legendOp parseFloat toNumber numberToString wellknown (Toggle v) st =
     hiddenValuesEffect numberToString
       (drawEffect parseFloat toNumber numberToString wellknown
          (toggleLegendItem numberToString v st))"
| "legendOp parseFloat toNumber numberToString wellknown ShowAll st =
     hiddenValuesEffect numberToString
       (drawEffect parseFloat toNumber numberToString wellknown (showAll st))"

fun legendOps ::
  "(string \<Rightarrow> real option) \<Rightarrow> (string \<Rightarrow> real option) \<Rightarrow> (real \<Rightarrow> string)
     \<Rightarrow> (string \<Rightarrow> js_error + geometry option) option
     \<Rightarrow> legend_op list \<Rightarrow> map_state \<Rightarrow> map_state" where
  "legendOps parseFloat toNumber numberToString wellknown [] st = st"
| "legendOps parseFloat toNumber numberToString wellknown (x # xs) st =
     legendOps parseFloat toNumber numberToString wellknown xs
       (legendOp parseFloat toNumber numberToString wellknown x st)"

section \<open>Concrete inputs\<close>

text \<open>
  The number-to-string conversion of the language on the integers below \<open>10^21\<close>: the
  decimal digits after the sign. It stands for the parameter \<open>numberToString\<close> where a
  property is run on a concrete input.
\<close>

definition integerToString :: "real \<Rightarrow> string" where
  "integerToString x = (if x < 0 then ''-'' else []) @ natToString (nat \<lfloor>\<bar>x\<bar>\<rfloor>)"

text \<open>
  Two records with a point in the geometry column, one with a polygon, one whose
  geometry is null, and the column descriptors of a table with the geometry column
  \<^verbatim>\<open>geom\<close>.
\<close>

definition activePoint :: jsrecord where
  "activePoint = [''status'' \<mapsto> JStr ''Active'', ''geom'' \<mapsto> JStr ''12.9, 77.5'']"

definition pendingPoint :: jsrecord where
  "pendingPoint = [''status'' \<mapsto> JStr ''Pending'', ''geom'' \<mapsto> JStr ''13.1, 77.6'']"

definition activePolygon :: jsrecord where
  "activePolygon =
     [''status'' \<mapsto> JStr ''Active'', ''geom'' \<mapsto> JStr ''POLYGON((0 0, 1 0, 1 1))'']"


definition tableColumns :: "column list" where
  "tableColumns =
     [\<lparr>key = ''status'', label = ''Status'', isGeometry = False, permission = Some View\<rparr>,
      \<lparr>key = ''geom'', label = ''Geometry'', isGeometry = True, permission = Some View\<rparr>]"

text \<open>
  The state after the records \<open>rs\<close> were drawn on the initialised map with the colour
  field \<^verbatim>\<open>status\<close> and no label field, and the legend was generated; nothing is hidden.
\<close>

definition drawnState :: "jsrecord list \<Rightarrow> map_state" where
  "drawnState rs =
     legendEffect integerToString
       (drawEffect parseFloatDec numberDec integerToString None
          \<lparr>data = rs, columns = tableColumns, colorField = ''status'', labelField = [],
           hiddenValues = {}, legendItems = [], isMapInitialized = True,
           layerGroup = Some []\<rparr>)"

definition pointsState :: map_state where
  "pointsState = drawnState [activePoint, pendingPoint]"

definition mixedState :: map_state where
  "mixedState = drawnState [activePoint, pendingPoint, activePolygon]"

section \<open>Properties of the measurement engine\<close>

text \<open>
  C10. Degenerate measurement inputs yield zero: for every list of fewer than two points
  \<^verbatim>\<open>calculateLineDistance\<close> returns 0, whatever the distance function of the mapping
  surface is, and for every list of fewer than three points \<^verbatim>\<open>calculatePolygonArea\<close>
  returns 0.
\<close>

theorem degenerate_measurements_zero:
  "(length points < 2 \<longrightarrow> calculateLineDistance distanceTo points = 0) \<and>
   (length points < 3 \<longrightarrow> calculatePolygonArea points = 0)"
  by (simp add: calculateLineDistance_def lineDistanceLoop.simps calculatePolygonArea_def)

theorem degenerate_measurements_zero_witness:
  "calculateLineDistance (\<lambda>p q. \<bar>lat p - lat q\<bar> + \<bar>lng p - lng q\<bar>) [\<lparr>lat = 1, lng = 2\<rparr>] = 0 \<and>
   calculateLineDistance (\<lambda>p q. \<bar>lat p - lat q\<bar> + \<bar>lng p - lng q\<bar>) [] = 0 \<and>
   calculatePolygonArea [\<lparr>lat = 1, lng = 2\<rparr>, \<lparr>lat = 3, lng = 4\<rparr>] = 0"
  using
    degenerate_measurements_zero
      [of "[\<lparr>lat = 1, lng = 2\<rparr>]" "\<lambda>p q. \<bar>lat p - lat q\<bar> + \<bar>lng p - lng q\<bar>"]
    degenerate_measurements_zero
      [of "[]" "\<lambda>p q. \<bar>lat p - lat q\<bar> + \<bar>lng p - lng q\<bar>"]
    degenerate_measurements_zero
      [of "[\<lparr>lat = 1, lng = 2\<rparr>, \<lparr>lat = 3, lng = 4\<rparr>]" "\<lambda>p q. 0"]
  by simp

text \<open>With two points the loop runs once: the distance function is really called.\<close>

lemma calculateLineDistance_two: "calculateLineDistance d [p, q] = d p q"
  by (simp add: calculateLineDistance_def lineDistanceLoop.simps)

text \<open>
  C1. The claim is that \<^verbatim>\<open>calculatePolygonArea\<close> returns
  \<open>\<bar>(north - south) * (east - west) * 111320 * 111320\<bar>\<close>. The expression of line 1104
  has no parentheses. For the three points (0, 0), (1, 0), (0, 1), whose extent is one
  degree by one degree, the claimed value is \<open>12392142400\<close> and the code returns \<open>1\<close>.
  For the right triangle with legs of 100 m at the origin (100 m being \<open>100 / 111320\<close>
  degrees), the claimed formula gives \<open>10000\<close> and the code returns \<open>100 / 111320\<close>.
\<close>

theorem calculatePolygonArea_precedence:
  "calculatePolygonArea [\<lparr>lat = 0, lng = 0\<rparr>, \<lparr>lat = 1, lng = 0\<rparr>, \<lparr>lat = 0, lng = 1\<rparr>] = 1 \<and>
   calculatePolygonArea
     [\<lparr>lat = 0, lng = 0\<rparr>, \<lparr>lat = 100 / 111320, lng = 0\<rparr>, \<lparr>lat = 0, lng = 100 / 111320\<rparr>]
     = 100 / 111320"
  by (simp add: calculatePolygonArea_def getNorth_def getSouth_def getEast_def getWest_def)

text \<open>
  C7. In metric mode \<^verbatim>\<open>formatDistance\<close> renders 1000 meters as \<^verbatim>\<open>1.00 km\<close> and 999
  meters as \<^verbatim>\<open>999.00 m\<close>: meters with two decimals below 1000, kilometers from 1000 on.
  \<^verbatim>\<open>formatArea\<close> renders 10000 square meters as hectares and 9999 square meters as
  square meters: square meters below 10000, hectares from 10000 on.
\<close>

theorem format_metric_boundaries:
  "formatDistance nts Metric 1000 = ''1.00 km'' \<and>
   formatDistance nts Metric 999 = ''999.00 m'' \<and>
   formatArea nts Metric 10000 = ''1.00 hectares'' \<and>
   formatArea nts Metric 9999 = ''9999.00 sq m'' \<and>
   (\<forall>m. formatDistance nts Metric m =
      (if m < 1000 then toFixed nts 2 m @ '' m'' else toFixed nts 2 (m / 1000) @ '' km'')) \<and>
   (\<forall>a. formatArea nts Metric a =
      (if a < 10000 then toFixed nts 2 a @ '' sq m''
       else toFixed nts 2 (a / 10000) @ '' hectares''))"
  by (simp add: formatDistance_def formatArea_def toFixed_def Let_def natToString.simps
        digitChar_def)

theorem format_metric_boundaries_witness:
  "formatDistance integerToString Metric 1000 = ''1.00 km'' \<and>
   formatDistance integerToString Metric 999 = ''999.00 m'' \<and>
   formatArea integerToString Metric 10000 = ''1.00 hectares'' \<and>
   formatArea integerToString Metric 9999 = ''9999.00 sq m''"
  using format_metric_boundaries [of integerToString] by blast

section \<open>Properties of the colour assigner and the legend\<close>

subsection \<open>The palette\<close>

lemma length_colors: "length colors = 15"
  by (simp add: colors_def)

lemma getColorForValue_in_palette: "getColorForValue v f \<in> set colors"
proof -
  have "nat (\<bar>foldl hashStep 0 v\<bar> mod 15) < 15"
    by simp
  then show ?thesis
    unfolding getColorForValue_def Let_def length_colors
    by (simp add: length_colors)
qed

subsection \<open>The map of values built by the legend\<close>

text \<open>
  After the records \<open>rs\<close> were folded into the empty map, the keys are distinct, and a
  value \<open>k\<close> is a key exactly when some record has the categorical value \<open>k\<close>; it is then
  bound to its colour and to the number of these records.
\<close>

lemma map_of_bump:
  "map_of (map (\<lambda>(k, kc, n). if k = v then (k, kc, n + 1) else (k, kc, n)) m) k =
     (if k = v then map_option (\<lambda>(c, n). (c, Suc n)) (map_of m k) else map_of m k)"
  by (induction m) auto

lemma keys_bump:
  "map fst (map (\<lambda>(k, kc, n). if k = v then (k, kc, n + 1) else (k, kc, n)) m) = map fst m"
  by (induction m) auto

lemma legendStep_keys:
  "map fst (legendStep nts cf m r) =
     (if categoryValue nts cf r \<in> set (map fst m) then map fst m
      else map fst m @ [categoryValue nts cf r])"
  unfolding legendStep_def Let_def using keys_bump [of "categoryValue nts cf r" m]
  by simp

lemma legendStep_map_of:
  "map_of (legendStep nts cf m r) k =
     (if k = categoryValue nts cf r
      then (case map_of m k of
              None \<Rightarrow> Some (getColorForValue k cf, 1)
            | Some (c, n) \<Rightarrow> Some (c, Suc n))
      else map_of m k)"
proof (cases "categoryValue nts cf r \<in> set (map fst m)")
  case True
  then obtain c n where "map_of m (categoryValue nts cf r) = Some (c, n)"
    by (metis map_of_eq_None_iff not_None_eq prod.exhaust_sel set_map)
  with True show ?thesis
    unfolding legendStep_def Let_def by (simp add: map_of_bump)
next
  case False
  then have "map_of m (categoryValue nts cf r) = None"
    by (simp add: map_of_eq_None_iff)
  with False show ?thesis
    unfolding legendStep_def Let_def by (auto simp: map_add_def split: option.splits)
qed

lemma legend_fold_invariant:
  assumes "distinct (map fst m)"
    and "\<And>k. map_of m k =
           (if k \<in> categoryValue nts cf ` set ps
            then Some (getColorForValue k cf, length (filter (\<lambda>r. categoryValue nts cf r = k) ps))
            else None)"
  shows "distinct (map fst (foldl (legendStep nts cf) m rs)) \<and>
         (\<forall>k. map_of (foldl (legendStep nts cf) m rs) k =
           (if k \<in> categoryValue nts cf ` set (ps @ rs)
            then Some (getColorForValue k cf,
                       length (filter (\<lambda>r. categoryValue nts cf r = k) (ps @ rs)))
            else None))"
  using assms
proof (induction rs arbitrary: m ps)
  case Nil
  then show ?case by simp
next
  case (Cons r rs)
  have d: "distinct (map fst (legendStep nts cf m r))"
    using Cons.prems(1) by (simp add: legendStep_keys)
  have i: "map_of (legendStep nts cf m r) k =
           (if k \<in> categoryValue nts cf ` set (ps @ [r])
            then Some (getColorForValue k cf,
                       length (filter (\<lambda>r. categoryValue nts cf r = k) (ps @ [r])))
            else None)" for k
  proof -
    have "filter (\<lambda>x. categoryValue nts cf x = categoryValue nts cf r) ps = []"
      if "categoryValue nts cf r \<notin> categoryValue nts cf ` set ps"
      using that by (metis (mono_tags, lifting) filter_False imageI)
    then show ?thesis
      by (auto simp: legendStep_map_of Cons.prems(2))
  qed
  from Cons.IH [OF d i] show ?case by simp
qed

lemma legend_fold:
  "distinct (map fst (foldl (legendStep nts cf) [] rs)) \<and>
   (\<forall>k. map_of (foldl (legendStep nts cf) [] rs) k =
      (if k \<in> categoryValue nts cf ` set rs
       then Some (getColorForValue k cf, length (filter (\<lambda>r. categoryValue nts cf r = k) rs))
       else None))"
  using legend_fold_invariant [of "[]" nts cf "[]" rs] by simp

subsection \<open>Restyling one layer\<close>

lemma updateLayer_keeps:
  "layerRecord (updateLayer nts cf H l) = layerRecord l \<and>
   shape (updateLayer nts cf H l) = shape l \<and>
   strokeColor (updateLayer nts cf H l) = strokeColor l \<and>
   weight (updateLayer nts cf H l) = weight l \<and>
   fillColor (updateLayer nts cf H l) = fillColor l"
  by (simp add: updateLayer_def setStyle_def Let_def split: option.splits)

lemma updateLayer_no_record:
  "layerRecord l = None \<Longrightarrow> updateLayer nts cf H l = l"
  by (simp add: updateLayer_def)

lemma updateLayer_style:
  "layerRecord l = Some r \<Longrightarrow>
   (opacity (updateLayer nts cf H l), fillOpacity (updateLayer nts cf H l)) =
     (if categoryValue nts cf r \<in> H then (0, 0) else (1, 0.3))"
  by (simp add: updateLayer_def setStyle_def Let_def)

lemma updateLayer_in_sync:
  "layerRecord l = Some r \<Longrightarrow>
   (opacity l, fillOpacity l) = (if categoryValue nts cf r \<in> H then (0, 0) else (1, 0.3)) \<Longrightarrow>
   updateLayer nts cf H l = l"
  by (simp add: updateLayer_def setStyle_def Let_def split: if_splits)

lemma updateLayer_idem:
  "updateLayer nts cf H (updateLayer nts cf H l) = updateLayer nts cf H l"
  by (simp add: updateLayer_def setStyle_def Let_def split: option.splits)

lemma updateLayerVisibility_idem:
  "updateLayerVisibility nts cf (updateLayerVisibility nts cf g H) H =
   updateLayerVisibility nts cf g H"
  by (simp add: updateLayerVisibility_def updateLayer_idem)

lemma updateLayer_opacities:
  "layerRecord l = Some r \<Longrightarrow>
   opacity (updateLayer nts cf H l) = (if categoryValue nts cf r \<in> H then 0 else 1) \<and>
   fillOpacity (updateLayer nts cf H l) = (if categoryValue nts cf r \<in> H then 0 else 0.3)"
  by (simp add: updateLayer_def setStyle_def Let_def)

subsection \<open>Colours\<close>

lemma legend_item_color:
  assumes "item \<in> set (generateLegendData nts cf rs hv)"
  shows "color item = getColorForValue (value' item) cf"
proof -
  let ?m = "foldl (legendStep nts cf) [] rs"
  from assms obtain v c n where vcn: "(v, c, n) \<in> set ?m"
    and it: "item = \<lparr>value' = v, color = c, count = n, visible = (v \<notin> hv)\<rparr>"
    by (auto simp: generateLegendData_def split: if_splits)
  from vcn legend_fold [of nts cf rs, THEN conjunct1] have "map_of ?m v = Some (c, n)"
    by simp
  with legend_fold [of nts cf rs, THEN conjunct2] have "c = getColorForValue v cf"
    by (auto split: if_splits)
  with it show ?thesis by simp
qed

lemma activePoint_status: "getField activePoint ''status'' = JStr ''Active''"
  by (simp add: getField_def activePoint_def)

text \<open>
  C8. The categorical colour is a function of the value string alone: the field argument
  is not used, so any two calls for a value \<open>v\<close> return the same colour, and this colour
  is one of the fixed palette of 15 entries. The legend gives each of its items the
  colour of the item's value, whatever the records and the hidden values are, and a
  feature whose record has a truthy value in the colour field is styled with the colour
  of that value.
\<close>

theorem getColorForValue_pure_palette:
  "getColorForValue v field \<in> set colors \<and> length colors = 15 \<and>
   getColorForValue v field = getColorForValue v field' \<and>
   (\<forall>item \<in> set (generateLegendData nts cf rs hv).
      color item = getColorForValue (value' item) field) \<and>
   (cf \<noteq> [] \<and> cf \<noteq> ''default'' \<and> truthy (getField r cf) \<longrightarrow>
      getFeatureColor nts cf r i = getColorForValue (categoryValue nts cf r) field)"
proof (intro conjI ballI impI)
  show "getColorForValue v field \<in> set colors"
    by (rule getColorForValue_in_palette)
  show "length colors = 15"
    by (rule length_colors)
  show "getColorForValue v field = getColorForValue v field'"
    by (simp add: getColorForValue_def)
next
  fix item assume "item \<in> set (generateLegendData nts cf rs hv)"
  then have "color item = getColorForValue (value' item) cf"
    by (rule legend_item_color)
  then show "color item = getColorForValue (value' item) field"
    by (simp add: getColorForValue_def)
next
  assume "cf \<noteq> [] \<and> cf \<noteq> ''default'' \<and> truthy (getField r cf)"
  then show "getFeatureColor nts cf r i = getColorForValue (categoryValue nts cf r) field"
    by (simp add: getFeatureColor_def getColorForValue_def)
qed

theorem getColorForValue_pure_palette_witness:
  "getColorForValue ''Active'' ''status'' \<in> set colors \<and>
   getColorForValue ''Active'' ''status'' = getColorForValue ''Active'' ''category'' \<and>
   getFeatureColor integerToString ''status'' activePoint 0 =
     getColorForValue ''Active'' ''category''"
  using getColorForValue_pure_palette
    [of "''Active''" "''status''" "''category''" integerToString "''status''"
        "[activePoint, pendingPoint]" "{}" activePoint 0]
  by (simp add: activePoint_status categoryValue_def jsOr_def getColorForValue_def)

text \<open>
  A record whose value in the colour field is falsy is not styled by the categorical
  colour of \<^verbatim>\<open>No value\<close>, under which the legend lists it, but by the default palette.
\<close>

lemma getFeatureColor_falsy:
  "\<not> truthy (getField r cf) \<Longrightarrow>
   getFeatureColor nts cf r i = defaultColors ! (i mod length defaultColors)"
  by (simp add: getFeatureColor_def)

subsection \<open>Legend items\<close>




subsection \<open>Toggling and showing all\<close>

text \<open>
  C2. The claim is that after any sequence of toggles and show-alls every legend item's
  visible flag equals the negated membership of its value in the hidden values, like the
  style of every feature. \<^verbatim>\<open>toggleLegendItem\<close> updates the hidden values and the layers,
  and leaves the legend items as the last \<^verbatim>\<open>generateLegendData\<close> computed them; the
  rendering that follows does not run the legend effect. From the state with the two
  point records, toggling \<^verbatim>\<open>Active\<close> hides the value and the layer of the record
  (opacity 0), and the legend item \<^verbatim>\<open>Active\<close> is still visible.
\<close>

theorem toggle_leaves_legend_item_visible:
  "hiddenValues
     (legendOp parseFloatDec numberDec integerToString None (Toggle ''Active'') pointsState)
     = {''Active''} \<and>
   map value' (legendItems
     (legendOp parseFloatDec numberDec integerToString None (Toggle ''Active'') pointsState))
     = [''Active'', ''Pending''] \<and>
   map visible (legendItems
     (legendOp parseFloatDec numberDec integerToString None (Toggle ''Active'') pointsState))
     = [True, True] \<and>
   map opacity (the (layerGroup
     (legendOp parseFloatDec numberDec integerToString None (Toggle ''Active'') pointsState)))
     = [0, 1]"
proof (intro conjI)
  show "hiddenValues
     (legendOp parseFloatDec numberDec integerToString None (Toggle ''Active'') pointsState)
     = {''Active''}"
    by code_simp
  show "map value' (legendItems
     (legendOp parseFloatDec numberDec integerToString None (Toggle ''Active'') pointsState))
     = [''Active'', ''Pending'']"
    by code_simp
  show "map visible (legendItems
     (legendOp parseFloatDec numberDec integerToString None (Toggle ''Active'') pointsState))
     = [True, True]"
    by code_simp
  show "map opacity (the (layerGroup
     (legendOp parseFloatDec numberDec integerToString None (Toggle ''Active'') pointsState)))
     = [0, 1]"
    by code_simp
qed

text \<open>
  The layers that carry a record do follow the hidden values: after a sequence of at
  least one operation, every such layer has the opacities that the hidden values
  prescribe.
\<close>

lemma legendOp_layers_in_sync:
  assumes "colorField st \<noteq> []" and "colorField st \<noteq> ''default''"
    and "layerGroup st = Some ls"
  shows "colorField (legendOp pf num nts wk x st) = colorField st \<and>
         (\<exists>ls'. layerGroup (legendOp pf num nts wk x st) = Some ls' \<and>
            (\<forall>l \<in> set ls'. \<forall>r. layerRecord l = Some r \<longrightarrow>
               (opacity l, fillOpacity l) =
                 (if categoryValue nts (colorField st) r
                       \<in> hiddenValues (legendOp pf num nts wk x st)
                  then (0, 0) else (1, 0.3))))"
proof (cases x)
  case (Toggle v)
  show ?thesis
    using assms unfolding Toggle
    by (auto simp: hiddenValuesEffect_def drawEffect_def toggleLegendItem_def Let_def
        updateLayerVisibility_def updateLayer_keeps updateLayer_opacities)
next
  case ShowAll
  show ?thesis
    using assms unfolding ShowAll
    by (auto simp: hiddenValuesEffect_def drawEffect_def showAll_def
        updateLayerVisibility_def updateLayer_keeps updateLayer_opacities)
qed

lemma legendOps_layers_in_sync:
  assumes "colorField st \<noteq> []" and "colorField st \<noteq> ''default''"
    and "layerGroup st = Some ls" and "ops \<noteq> []"
  shows "\<exists>ls'. layerGroup (legendOps pf num nts wk ops st) = Some ls' \<and>
            (\<forall>l \<in> set ls'. \<forall>r. layerRecord l = Some r \<longrightarrow>
               (opacity l, fillOpacity l) =
                 (if categoryValue nts (colorField st) r
                       \<in> hiddenValues (legendOps pf num nts wk ops st)
                  then (0, 0) else (1, 0.3)))"
  using assms
proof (induction ops arbitrary: st ls)
  case Nil
  then show ?case by simp
next
  case (Cons x xs)
  from legendOp_layers_in_sync [OF Cons.prems(1-3), of pf num nts wk x]
  obtain ls' where cf: "colorField (legendOp pf num nts wk x st) = colorField st"
    and g: "layerGroup (legendOp pf num nts wk x st) = Some ls'"
    and sync: "\<forall>l \<in> set ls'. \<forall>r. layerRecord l = Some r \<longrightarrow>
               (opacity l, fillOpacity l) =
                 (if categoryValue nts (colorField st) r
                       \<in> hiddenValues (legendOp pf num nts wk x st)
                  then (0, 0) else (1, 0.3))"
    by blast
  show ?case
  proof (cases xs)
    case Nil
    then show ?thesis using g sync by simp
  next
    case (Cons y ys)
    then have "xs \<noteq> []" by simp
    from Cons.IH [of "legendOp pf num nts wk x st" ls'] Cons.prems(1,2) cf g this
    show ?thesis by simp
  qed
qed

text \<open>
  The layer of a geometry read from a tagged string carries no record of its own, so
  \<^verbatim>\<open>updateLayerVisibility\<close> never restyles it, whatever is hidden.
\<close>

lemma updateLayer_geoJSONLayer:
  "updateLayer nts cf H (geoJSONLayer r g c) = geoJSONLayer r g c"
  by (simp add: updateLayer_def geoJSONLayer_def)

text \<open>
  After a toggle on the initialised map, the layers are those that the drawing effect
  drew anew from the data, restyled: no layer of the state before is kept.
\<close>

lemma toggle_redraws_layers:
  assumes "isMapInitialized st" and "layerGroup st = Some ls"
    and "colorField st \<noteq> []" and "colorField st \<noteq> ''default''"
  shows "layerGroup (legendOp pf num nts wk (Toggle v) st) =
           Some (map (updateLayer nts (colorField st)
                        (if v \<in> hiddenValues st then hiddenValues st - {v}
                         else insert v (hiddenValues st)))
                   (drawLayers pf num nts wk (colorField st) (labelField st) (columns st)
                      (data st)))"
  using assms
  by (simp add: hiddenValuesEffect_def drawEffect_def toggleLegendItem_def Let_def
      updateLayerVisibility_def)

lemma mixedState_fields:
  "isMapInitialized mixedState" "colorField mixedState = ''status''"
  "labelField mixedState = []" "columns mixedState = tableColumns"
  "data mixedState = [activePoint, pendingPoint, activePolygon]"
  "hiddenValues mixedState = {}"
  "layerGroup mixedState =
     Some (drawLayers parseFloatDec numberDec integerToString None ''status'' [] tableColumns
             [activePoint, pendingPoint, activePolygon])"
  by (simp_all add: mixedState_def drawnState_def legendEffect_def drawEffect_def)

text \<open>
  C9. The claim is that toggling a legend value \<open>v\<close> flips the membership of \<open>v\<close> in the
  hidden values and reapplies visibility only to the features whose categorical value
  equals \<open>v\<close> (opacity 0 when hidden), that the styles of the features with another value
  are left unchanged, and that no geometry is reparsed and the feature set is not
  rebuilt. The state has drawn a point of \<^verbatim>\<open>Active\<close>, a point of \<^verbatim>\<open>Pending\<close> and a polygon
  of \<^verbatim>\<open>Active\<close>, all visible, and \<^verbatim>\<open>Active\<close> is toggled. The value is hidden and the
  marker of \<^verbatim>\<open>Active\<close> gets the opacity 0. The polygon of \<^verbatim>\<open>Active\<close> keeps the opacity 1
  and the fill opacity 0.3: it is not hidden. The marker of \<^verbatim>\<open>Pending\<close> goes from the fill
  opacity 0.8 to 0.3: its style is not left unchanged. The layers after the toggle are
  the same when the state before holds no layer at all: they are drawn anew.
\<close>

theorem toggle_redraws_and_misses_polygon:
  "map (layerCategory integerToString ''status'') (the (layerGroup mixedState))
     = [Some ''Active'', Some ''Pending'', Some ''Active''] \<and>
   map opacity (the (layerGroup mixedState)) = [1, 1, 1] \<and>
   map fillOpacity (the (layerGroup mixedState)) = [0.8, 0.8, 0.3] \<and>
   hiddenValues
     (legendOp parseFloatDec numberDec integerToString None (Toggle ''Active'') mixedState)
     = {''Active''} \<and>
   map opacity (the (layerGroup
     (legendOp parseFloatDec numberDec integerToString None (Toggle ''Active'') mixedState)))
     = [0, 1, 1] \<and>
   map fillOpacity (the (layerGroup
     (legendOp parseFloatDec numberDec integerToString None (Toggle ''Active'') mixedState)))
     = [0, 0.3, 0.3] \<and>
   layerGroup
     (legendOp parseFloatDec numberDec integerToString None (Toggle ''Active'') mixedState)
     = layerGroup
         (legendOp parseFloatDec numberDec integerToString None (Toggle ''Active'')
            (mixedState\<lparr>layerGroup := Some []\<rparr>))"
proof (intro conjI)
  show "map (layerCategory integerToString ''status'') (the (layerGroup mixedState))
     = [Some ''Active'', Some ''Pending'', Some ''Active'']"
    by code_simp
  show "map opacity (the (layerGroup mixedState)) = [1, 1, 1]"
    by code_simp
  show "map fillOpacity (the (layerGroup mixedState)) = [0.8, 0.8, 0.3]"
    by code_simp
  show "hiddenValues
     (legendOp parseFloatDec numberDec integerToString None (Toggle ''Active'') mixedState)
     = {''Active''}"
    by code_simp
  show "map opacity (the (layerGroup
     (legendOp parseFloatDec numberDec integerToString None (Toggle ''Active'') mixedState)))
     = [0, 1, 1]"
    by code_simp
  show "map fillOpacity (the (layerGroup
     (legendOp parseFloatDec numberDec integerToString None (Toggle ''Active'') mixedState)))
     = [0, 0.3, 0.3]"
    by code_simp
  show "layerGroup
     (legendOp parseFloatDec numberDec integerToString None (Toggle ''Active'') mixedState)
     = layerGroup
         (legendOp parseFloatDec numberDec integerToString None (Toggle ''Active'')
            (mixedState\<lparr>layerGroup := Some []\<rparr>))"
  proof -
    have a: "layerGroup
        (legendOp parseFloatDec numberDec integerToString None (Toggle ''Active'') mixedState)
      = Some (map (updateLayer integerToString ''status'' {''Active''})
          (drawLayers parseFloatDec numberDec integerToString None ''status'' [] tableColumns
             [activePoint, pendingPoint, activePolygon]))"
      using toggle_redraws_layers
        [of mixedState _ parseFloatDec numberDec integerToString None "''Active''"]
      by (simp add: mixedState_fields)
    have b: "layerGroup
        (legendOp parseFloatDec numberDec integerToString None (Toggle ''Active'')
           (mixedState\<lparr>layerGroup := Some []\<rparr>))
      = Some (map (updateLayer integerToString ''status'' {''Active''})
          (drawLayers parseFloatDec numberDec integerToString None ''status'' [] tableColumns
             [activePoint, pendingPoint, activePolygon]))"
      using toggle_redraws_layers
        [of "mixedState\<lparr>layerGroup := Some []\<rparr>" "[]" parseFloatDec numberDec
            integerToString None "''Active''"]
      by (simp add: mixedState_fields)
    show ?thesis
      by (simp only: a b)
  qed
qed

section \<open>Properties of the geometry parser\<close>

subsection \<open>Strings and patterns\<close>

lemma startsWith_includes: "startsWith s pat \<Longrightarrow> includes' s pat"
  by (cases s) (auto simp: startsWith_def)

lemma includes_append_left: "includes' s pat \<Longrightarrow> includes' (a @ s) pat"
  by (induction a) (auto simp: startsWith_includes)

lemma startsWith_append: "startsWith s pat \<Longrightarrow> startsWith (s @ b) pat"
  by (metis append_eq_conv_conj append_take_drop_id startsWith_def append.assoc)

lemma includes_infix: "startsWith s pat \<Longrightarrow> includes' (a @ s @ b) pat"
  by (intro includes_append_left startsWith_includes startsWith_append)

lemma trim_infix: "\<exists>a b. s = a @ trim s @ b"
proof -
  let ?d = "dropWhile isSpace s"
  have "rev ?d = takeWhile isSpace (rev ?d) @ dropWhile isSpace (rev ?d)"
    by simp
  then have "?d = rev (dropWhile isSpace (rev ?d)) @ rev (takeWhile isSpace (rev ?d))"
    by (metis rev_append rev_rev_ident)
  then have "s = takeWhile isSpace s @ trim s @ rev (takeWhile isSpace (rev ?d))"
    unfolding trim_def by (metis takeWhile_dropWhile_id)
  then show ?thesis by blast
qed

lemma tag_includes:
  assumes "startsWith (toUpperCase (trim s)) pat"
  shows "includes' (toUpperCase s) pat"
proof -
  obtain a b where "s = a @ trim s @ b"
    using trim_infix by blast
  then have "toUpperCase s = toUpperCase a @ toUpperCase (trim s) @ toUpperCase b"
    unfolding toUpperCase_def by (metis map_append)
  with assms show ?thesis
    by (simp add: includes_infix)
qed

text \<open>A match yields a group that is not empty, and the tag it read is in the string.\<close>

lemma matchTagAt_Some:
  "matchTagAt tag k s = Some g \<Longrightarrow> g \<noteq> [] \<and> startsWith (toUpperCase s) tag"
  by (auto simp: matchTagAt_def Let_def startsWith_def toUpperCase_def take_map
      split: if_splits option.splits)

lemma searchTag_Some:
  "searchTag tag k s = Some g \<Longrightarrow> g \<noteq> [] \<and> includes' (toUpperCase s) tag"
proof (induction s)
  case Nil
  then show ?case
    using matchTagAt_Some [of tag k "[]" g] by (simp add: startsWith_includes)
next
  case (Cons c cs)
  show ?case
  proof (cases "matchTagAt tag k (c # cs)")
    case None
    with Cons show ?thesis
      by (simp add: toUpperCase_def)
  next
    case (Some g')
    with Cons.prems have "matchTagAt tag k (c # cs) = Some g" by simp
    from matchTagAt_Some [OF this] show ?thesis
      by (simp add: startsWith_includes)
  qed
qed

lemma searchTag_head: "matchTagAt tag k s = Some g \<Longrightarrow> searchTag tag k s = Some g"
  by (cases s) simp_all

lemma skip_spaces:
  "\<forall>c \<in> set sp. isSpace c \<Longrightarrow> \<not> isSpace x \<Longrightarrow> dropWhile isSpace (sp @ x # r) = x # r"
  by (simp add: dropWhile_append2)

lemma paren_not_space: "\<not> isSpace (CHR ''('')" "\<not> isSpace (CHR '')'')"
  by (simp_all add: isSpace_def)

lemma split_at_first:
  "c \<notin> set xs \<Longrightarrow>
   takeWhile (\<lambda>x. x \<noteq> c) (xs @ c # ys) = xs \<and>
   dropWhile (\<lambda>x. x \<noteq> c) (xs @ c # ys) = c # ys"
  by (induction xs) auto

text \<open>
  The pattern of \<^verbatim>\<open>POLYGON\<close> matches a string that has the tag, two opening parentheses,
  a coordinate list without a closing parenthesis that does not begin with white space,
  and two closing parentheses, with white space wherever the pattern allows it; the
  group is the coordinate list.
\<close>

lemma searchTag_polygon_form:
  assumes sp: "\<forall>c \<in> set sp1. isSpace c" "\<forall>c \<in> set sp2. isSpace c" "\<forall>c \<in> set sp3. isSpace c"
    and body: "body \<noteq> []" "\<not> isSpace (hd body)" "CHR '')'' \<notin> set body"
  shows "searchTag ''POLYGON'' 2
           (''POLYGON'' @ sp1 @ ''('' @ sp2 @ ''('' @ body @ '')'' @ sp3 @ '')'' @ rest) = Some body"
proof -
  let ?tail = "body @ CHR '')'' # sp3 @ CHR '')'' # rest"
  have opens: "matchOpens 2 (sp1 @ CHR ''('' # sp2 @ CHR ''('' # ?tail) = Some ?tail"
    using sp(1,2) by (simp add: numeral_2_eq_2 skip_spaces paren_not_space)
  obtain b bs where b: "body = b # bs" and nb: "\<not> isSpace b"
    using body(1,2) by (cases body) auto
  have w: "takeWhile isSpace ?tail = []" and r': "dropWhile isSpace ?tail = ?tail"
    using b nb by simp_all
  have grp: "takeWhile (\<lambda>c. c \<noteq> CHR '')'') ?tail = body"
    and after: "dropWhile (\<lambda>c. c \<noteq> CHR '')'') ?tail = CHR '')'' # sp3 @ CHR '')'' # rest"
    using split_at_first [OF body(3)] by simp_all
  have closes: "matchCloses 2 (CHR '')'' # sp3 @ CHR '')'' # rest)"
    using sp(3) by (simp add: numeral_2_eq_2 skip_spaces paren_not_space)
  have "matchTagAt ''POLYGON'' 2 (''POLYGON'' @ sp1 @ CHR ''('' # sp2 @ CHR ''('' # ?tail)
          = Some body"
    unfolding matchTagAt_def
    by (simp add: toUpperCase_def toUpperChar_def opens Let_def w r' grp after closes body(1))
  then show ?thesis
    by (simp add: searchTag_head)
qed

subsection \<open>The manual parser\<close>

lemma closeRing_closed:
  assumes "pairs \<noteq> []"
  shows "closeRing pairs = (if hd pairs = last pairs then pairs else pairs @ [hd pairs]) \<and>
         hd (closeRing pairs) = last (closeRing pairs) \<and>
         closeRing pairs \<noteq> []"
proof -
  have "pairs ! 0 = hd pairs" and "pairs ! (length pairs - 1) = last pairs"
    using assms by (simp_all add: hd_conv_nth last_conv_nth)
  then show ?thesis
    using assms by (auto simp: closeRing_def Let_def prod_eq_iff)
qed

lemma manual_truncated:
  "includes' (toUpperCase wkt) ''MULTIPOLYGON'' \<Longrightarrow> \<not> includes' wkt '')))'' \<Longrightarrow>
   parseMultiPolygonManually pf (JStr wkt) = Inr None"
  by (simp add: parseMultiPolygonManually_def parseMultiPolygonManually_try_def)

lemma manual_never_throws: "\<exists>g. parseMultiPolygonManually pf v = Inr g"
  by (simp add: parseMultiPolygonManually_def split: sum.splits)

lemma parseGeometry_never_throws: "\<exists>g. parseGeometry pf num nts wk v = Inr g"
  by (simp add: parseGeometry_def split: sum.splits)

lemma parseGeometry_tagged:
  assumes "startsWith (toUpperCase (trim s)) ''POLYGON'' \<or>
           startsWith (toUpperCase (trim s)) ''MULTIPOLYGON''"
  shows "parseGeometry pf num nts wk (JStr s) =
           (case manualOrWellknown pf wk s of Inl e \<Rightarrow> Inr None | Inr g \<Rightarrow> Inr g)"
proof -
  have "s \<noteq> []"
    using assms by (auto simp: startsWith_def trim_def toUpperCase_def)
  with assms show ?thesis
    by (auto simp: parseGeometry_def parseGeometry_try_def Let_def split: sum.splits)
qed

text \<open>
  C3. For every string in which the pattern \<^verbatim>\<open>POLYGON((...))\<close> of the code matches (and
  that does not contain \<^verbatim>\<open>MULTIPOLYGON\<close>): when the coordinate list yields at least three
  valid coordinate pairs, the parser returns a polygon with one ring, the ring is the list
  of the pairs with the first pair appended when it differs from the last, and the first
  point of the ring equals its last point; this polygon is also the geometry of the value
  when the tag stands at the head of the trimmed string, whatever the optional library
  is. When the list yields fewer than three valid pairs, the parser returns null.
\<close>

theorem polygon_ring_closed:
  assumes "\<not> includes' (toUpperCase wkt) ''MULTIPOLYGON''"
    and "searchTag ''POLYGON'' 2 wkt = Some coordString"
  shows "(3 \<le> length (parseCoordPairs pf coordString) \<longrightarrow>
           (\<exists>ring. parseMultiPolygonManually pf (JStr wkt) = Inr (Some (Polygon [ring])) \<and>
              ring = (if hd (parseCoordPairs pf coordString) = last (parseCoordPairs pf coordString)
                      then parseCoordPairs pf coordString
                      else parseCoordPairs pf coordString @ [hd (parseCoordPairs pf coordString)]) \<and>
              ring \<noteq> [] \<and> hd ring = last ring \<and>
              (startsWith (toUpperCase (trim wkt)) ''POLYGON'' \<longrightarrow>
                 parseGeometry pf num nts wk (JStr wkt) = Inr (Some (Polygon [ring]))))) \<and>
         (length (parseCoordPairs pf coordString) < 3 \<longrightarrow>
            parseMultiPolygonManually pf (JStr wkt) = Inr None)"
proof -
  let ?pairs = "parseCoordPairs pf coordString"
  from searchTag_Some [OF assms(2)]
  have ne: "coordString \<noteq> []" and poly: "includes' (toUpperCase wkt) ''POLYGON''"
    by simp_all
  have ex: "extractCoordString wkt = coordString"
    using assms poly by (simp add: extractCoordString_def)
  have res: "parseMultiPolygonManually pf (JStr wkt) =
      (if length ?pairs < 3 then Inr None else Inr (Some (Polygon [closeRing ?pairs])))"
    using assms(1) ne ex
    by (simp add: parseMultiPolygonManually_def parseMultiPolygonManually_try_def Let_def)
  show ?thesis
  proof (intro conjI impI)
    assume three: "3 \<le> length ?pairs"
    then have "?pairs \<noteq> []" by auto
    from closeRing_closed [OF this]
    have c1: "closeRing ?pairs = (if hd ?pairs = last ?pairs then ?pairs else ?pairs @ [hd ?pairs])"
      and c2: "hd (closeRing ?pairs) = last (closeRing ?pairs)"
      and c3: "closeRing ?pairs \<noteq> []"
      by blast+
    from res three
    have r: "parseMultiPolygonManually pf (JStr wkt) = Inr (Some (Polygon [closeRing ?pairs]))"
      by simp
    have g: "parseGeometry pf num nts wk (JStr wkt) = Inr (Some (Polygon [closeRing ?pairs]))"
      if "startsWith (toUpperCase (trim wkt)) ''POLYGON''"
      using that r by (simp add: parseGeometry_tagged manualOrWellknown_def)
    show "\<exists>ring. parseMultiPolygonManually pf (JStr wkt) = Inr (Some (Polygon [ring])) \<and>
              ring = (if hd ?pairs = last ?pairs then ?pairs else ?pairs @ [hd ?pairs]) \<and>
              ring \<noteq> [] \<and> hd ring = last ring \<and>
              (startsWith (toUpperCase (trim wkt)) ''POLYGON'' \<longrightarrow>
                 parseGeometry pf num nts wk (JStr wkt) = Inr (Some (Polygon [ring])))"
      using r c1 c2 c3 g by blast
  next
    assume "length ?pairs < 3"
    with res show "parseMultiPolygonManually pf (JStr wkt) = Inr None"
      by simp
  qed
qed

theorem polygon_ring_closed_witness:
  "(\<exists>ring. parseMultiPolygonManually parseFloatDec (JStr ''POLYGON((0 0, 1 0, 1 1))'')
             = Inr (Some (Polygon [ring])) \<and>
           ring = [(0, 0), (1, 0), (1, 1), (0, 0)] \<and> hd ring = last ring \<and>
           parseGeometry parseFloatDec numberDec integerToString None
             (JStr ''POLYGON((0 0, 1 0, 1 1))'') = Inr (Some (Polygon [ring]))) \<and>
   parseMultiPolygonManually parseFloatDec (JStr ''POLYGON((0 0, 1 0))'') = Inr None"
proof -
  have a1: "\<not> includes' (toUpperCase ''POLYGON((0 0, 1 0, 1 1))'') ''MULTIPOLYGON''"
    by code_simp
  have a2: "searchTag ''POLYGON'' 2 ''POLYGON((0 0, 1 0, 1 1))'' = Some ''0 0, 1 0, 1 1''"
    by code_simp
  have a3: "parseCoordPairs parseFloatDec ''0 0, 1 0, 1 1'' = [(0, 0), (1, 0), (1, 1)]"
    by code_simp
  have a4: "startsWith (toUpperCase (trim ''POLYGON((0 0, 1 0, 1 1))'')) ''POLYGON''"
    by code_simp
  have b1: "\<not> includes' (toUpperCase ''POLYGON((0 0, 1 0))'') ''MULTIPOLYGON''"
    by code_simp
  have b2: "searchTag ''POLYGON'' 2 ''POLYGON((0 0, 1 0))'' = Some ''0 0, 1 0''"
    by code_simp
  have b3: "parseCoordPairs parseFloatDec ''0 0, 1 0'' = [(0, 0), (1, 0)]"
    by code_simp
  from polygon_ring_closed [OF a1 a2, of parseFloatDec numberDec integerToString None]
    polygon_ring_closed [OF b1 b2, of parseFloatDec] a4
  show ?thesis
    unfolding a3 b3 by simp
qed

text \<open>
  C4. For every string that does not contain \<^verbatim>\<open>)))\<close>: when it contains the tag
  \<^verbatim>\<open>MULTIPOLYGON\<close> in any case, the manual parser returns null; when the tag stands at
  the head of the trimmed string, as the tag test of line 286 wants it, the geometry of
  the value is null too, without the optional library and with one that reads no
  geometry from the string.
\<close>

theorem truncated_multipolygon_null:
  assumes "\<not> includes' wkt '')))''"
  shows "(includes' (toUpperCase wkt) ''MULTIPOLYGON'' \<longrightarrow>
            parseMultiPolygonManually pf (JStr wkt) = Inr None) \<and>
         (startsWith (toUpperCase (trim wkt)) ''MULTIPOLYGON'' \<longrightarrow>
            parseMultiPolygonManually pf (JStr wkt) = Inr None \<and>
            parseGeometry pf num nts None (JStr wkt) = Inr None \<and>
            (\<forall>wk. (\<forall>g. wk wkt \<noteq> Inr (Some g)) \<longrightarrow>
               parseGeometry pf num nts (Some wk) (JStr wkt) = Inr None))"
proof (intro conjI impI allI)
  assume "includes' (toUpperCase wkt) ''MULTIPOLYGON''"
  with assms show "parseMultiPolygonManually pf (JStr wkt) = Inr None"
    by (simp add: manual_truncated)
next
  assume tag: "startsWith (toUpperCase (trim wkt)) ''MULTIPOLYGON''"
  then have inc: "includes' (toUpperCase wkt) ''MULTIPOLYGON''"
    by (rule tag_includes)
  with assms show m: "parseMultiPolygonManually pf (JStr wkt) = Inr None"
    by (simp add: manual_truncated)
  from tag m show "parseGeometry pf num nts None (JStr wkt) = Inr None"
    by (simp add: parseGeometry_tagged manualOrWellknown_def)
  fix wk :: "string \<Rightarrow> js_error + geometry option"
  assume "\<forall>g. wk wkt \<noteq> Inr (Some g)"
  then have "(\<exists>e. wk wkt = Inl e) \<or> wk wkt = Inr None"
    by (metis sum.exhaust option.exhaust)
  with tag m show "parseGeometry pf num nts (Some wk) (JStr wkt) = Inr None"
    by (auto simp: parseGeometry_tagged manualOrWellknown_def)
qed

theorem truncated_multipolygon_null_witness:
  "parseMultiPolygonManually parseFloatDec (JStr ''MULTIPOLYGON (((0 0, 1 0, 1 1'') = Inr None \<and>
   parseGeometry parseFloatDec numberDec integerToString None
     (JStr ''MULTIPOLYGON (((0 0, 1 0, 1 1'') = Inr None"
proof -
  have a1: "\<not> includes' ''MULTIPOLYGON (((0 0, 1 0, 1 1'' '')))''"
    by code_simp
  have a2: "startsWith (toUpperCase (trim ''MULTIPOLYGON (((0 0, 1 0, 1 1'')) ''MULTIPOLYGON''"
    by code_simp
  from truncated_multipolygon_null [OF a1, of parseFloatDec numberDec integerToString] a2
  show ?thesis by blast
qed

text \<open>
  C5. Geometry parsing never throws: for every value, every behaviour of the language's
  number readers and every behaviour of the optional library, an exception included,
  the manual parser and the geometry of a value return normally. They return null for
  every value that is not a string; the manual parser returns null for a string from
  which no coordinate list or fewer than three valid pairs are read; and the geometry
  is null for a string that has neither a polygon tag at its head nor \<^verbatim>\<open>POINT\<close> nor a
  comma in it.
\<close>

theorem geometry_parsing_never_throws:
  "(\<exists>g. parseMultiPolygonManually pf v = Inr g) \<and>
   (\<exists>g. parseGeometry pf num nts wk v = Inr g) \<and>
   ((\<forall>s. v \<noteq> JStr s) \<longrightarrow>
      parseMultiPolygonManually pf v = Inr None \<and> parseGeometry pf num nts wk v = Inr None) \<and>
   (\<forall>s. v = JStr s \<and>
        (extractCoordString s = [] \<or> length (parseCoordPairs pf (extractCoordString s)) < 3)
      \<longrightarrow> parseMultiPolygonManually pf v = Inr None) \<and>
   (\<forall>s. v = JStr s \<and>
        \<not> startsWith (toUpperCase (trim s)) ''POLYGON'' \<and>
        \<not> startsWith (toUpperCase (trim s)) ''MULTIPOLYGON'' \<and>
        \<not> includes' (trim s) ''POINT'' \<and> \<not> includes' (trim s) '',''
      \<longrightarrow> parseGeometry pf num nts wk v = Inr None)"
proof (intro conjI allI impI)
  show "\<exists>g. parseMultiPolygonManually pf v = Inr g"
    by (rule manual_never_throws)
  show "\<exists>g. parseGeometry pf num nts wk v = Inr g"
    by (rule parseGeometry_never_throws)
next
  assume "\<forall>s. v \<noteq> JStr s"
  then show "parseMultiPolygonManually pf v = Inr None"
    and "parseGeometry pf num nts wk v = Inr None"
    by (cases v;
        simp add: parseMultiPolygonManually_def parseMultiPolygonManually_try_def
          parseGeometry_def parseGeometry_try_def)+
next
  fix s
  assume "v = JStr s \<and>
        (extractCoordString s = [] \<or> length (parseCoordPairs pf (extractCoordString s)) < 3)"
  then show "parseMultiPolygonManually pf v = Inr None"
    by (auto simp: parseMultiPolygonManually_def parseMultiPolygonManually_try_def Let_def)
next
  fix s
  assume "v = JStr s \<and>
        \<not> startsWith (toUpperCase (trim s)) ''POLYGON'' \<and>
        \<not> startsWith (toUpperCase (trim s)) ''MULTIPOLYGON'' \<and>
        \<not> includes' (trim s) ''POINT'' \<and> \<not> includes' (trim s) '',''"
  then show "parseGeometry pf num nts wk v = Inr None"
    by (auto simp: parseGeometry_def parseGeometry_try_def parseCoordinates_def Let_def)
qed

theorem geometry_parsing_never_throws_witness:
  "parseGeometry parseFloatDec numberDec integerToString None JNull = Inr None \<and>
   parseGeometry parseFloatDec numberDec integerToString None (JNum 5) = Inr None \<and>
   parseMultiPolygonManually parseFloatDec (JNum 5) = Inr None \<and>
   parseGeometry parseFloatDec numberDec integerToString None (JStr ''not a shape'') = Inr None \<and>
   (\<exists>g. parseGeometry parseFloatDec numberDec integerToString (Some (\<lambda>s. Inl LibraryError))
          (JStr ''POLYGON((0 0, 1'') = Inr g)"
proof -
  have a: "\<not> startsWith (toUpperCase (trim ''not a shape'')) ''POLYGON'' \<and>
        \<not> startsWith (toUpperCase (trim ''not a shape'')) ''MULTIPOLYGON'' \<and>
        \<not> includes' (trim ''not a shape'') ''POINT'' \<and> \<not> includes' (trim ''not a shape'') '',''"
    by code_simp
  from
    geometry_parsing_never_throws [of parseFloatDec JNull numberDec integerToString None]
    geometry_parsing_never_throws [of parseFloatDec "JNum 5" numberDec integerToString None]
    geometry_parsing_never_throws [of parseFloatDec "JStr ''not a shape''" numberDec integerToString None]
    geometry_parsing_never_throws [of parseFloatDec "JStr ''POLYGON((0 0, 1''" numberDec
      integerToString "Some (\<lambda>s. Inl LibraryError)"]
    a
  show ?thesis by simp
qed

end
